theory Spec2Isabelle
  imports Complex_Main
begin

section \<open>Python values used by the dashboard script\<close>

text \<open>
  The script \<^verbatim>\<open>importstreamlite.py\<close> is a Streamlit page: widgets in the sidebar, two
  helper functions (\<^verbatim>\<open>authenticate_twitter\<close>, \<^verbatim>\<open>fetch_tweets\<close>), the aggregation
  \<^verbatim>\<open>generate_summary\<close> and the refresh loop at module level.

  Errors are values: every \<^verbatim>\<open>raise\<close> of the script or of a library it calls is an
  \<open>Inl\<close>. The type \<open>exn\<close> stands for instances of Python's \<^verbatim>\<open>Exception\<close> carrying their
  message, which is what \<^verbatim>\<open>except Exception as e\<close> catches and what the API client, the
  analyser and the arithmetic of the script raise.
\<close>

datatype exn = Exception string

text \<open>
  A Python float is an IEEE double. A finite double is an integer mantissa times a power
  of two: \<open>PyFloat m e\<close> has the value \<open>m * 2 ^ e\<close>, and every finite double is of this form
  with \<open>\<bar>m\<bar> < 2 ^ 53\<close> and \<open>- 1074 \<le> e \<le> 971\<close>. Comparisons of doubles are exact
  comparisons of their values.
\<close>

datatype pyfloat = PyFloat int int

fun valof :: "pyfloat \<Rightarrow> real" where
  "valof (PyFloat m e) =
     (if 0 \<le> e then real_of_int m * 2 ^ nat e else real_of_int m / 2 ^ nat (- e))"

definition finite_double :: "pyfloat \<Rightarrow> bool" where
  "finite_double x = (case x of PyFloat m e \<Rightarrow> \<bar>m\<bar> < 2 ^ 53 \<and> - 1074 \<le> e \<and> e \<le> 971)"

text \<open>
  The literal \<^verbatim>\<open>0.05\<close> of the source is not the number 1/20, which no double equals, but
  the double nearest to it, \<^verbatim>\<open>0x3FA999999999999A\<close>: mantissa 7205759403792794, exponent
  -57. The literal \<^verbatim>\<open>-0.05\<close> is its negation.
\<close>

definition lit_0_05 :: pyfloat where
  "lit_0_05 = PyFloat 7205759403792794 (- 57)"

fun py_neg :: "pyfloat \<Rightarrow> pyfloat" where
  "py_neg (PyFloat m e) = PyFloat (- m) e"

definition py_ge :: "pyfloat \<Rightarrow> pyfloat \<Rightarrow> bool" where
  "py_ge a b = (valof b \<le> valof a)"

definition py_le :: "pyfloat \<Rightarrow> pyfloat \<Rightarrow> bool" where
  "py_le a b = (valof a \<le> valof b)"

text \<open>
  \<^verbatim>\<open>a / b\<close> on two Python ints is true division: it raises \<^verbatim>\<open>ZeroDivisionError\<close> when
  \<^verbatim>\<open>b\<close> is 0. The quotient is kept exact here (the rounding to a double and the
  \<^verbatim>\<open>:.1f\<close> formatting of the script are not modelled).
\<close>

definition py_truediv :: "nat \<Rightarrow> nat \<Rightarrow> exn + real" where
  "py_truediv a b =
     (if b = 0 then Inl (Exception ''ZeroDivisionError: division by zero'')
      else Inr (real a / real b))"

section \<open>Data model\<close>

text \<open>A status returned by the search API, with the attributes the script reads.\<close>

record tweet =
  tw_full_text :: string
  tw_screen_name :: string
  tw_location :: string
  tw_created_at :: nat
  tw_retweet_count :: nat
  tw_favorite_count :: nat

text \<open>One dict appended to \<^verbatim>\<open>tweet_data\<close>, that is one row of the DataFrame.\<close>

record row =
  tweet_text :: string
  user :: string
  location :: string
  created_at :: nat
  retweets :: nat
  favorites :: nat
  sentiment :: pyfloat
  sentiment_label :: string

text \<open>
  The dict \<^verbatim>\<open>{'latitude': .., 'longitude': .., 'radius': ..}\<close> of the location filter.
  The number inputs for latitude and longitude start from a float and return floats; the
  one for the radius starts from \<^verbatim>\<open>value=50\<close> and returns a Python int.
\<close>

record geo =
  latitude :: real
  longitude :: real
  radius :: int

text \<open>The dict returned by \<^verbatim>\<open>generate_summary\<close>: five keys, no percentage among them.\<close>

record summary =
  total_tweets :: nat
  positive :: nat
  neutral :: nat
  negative :: nat
  avg_sentiment :: pyfloat

text \<open>
  The values of the sidebar widgets in one run of the script. The three number inputs are
  only read when the check box is ticked.
\<close>

record config =
  api_key :: string
  api_secret :: string
  access_token :: string
  access_secret :: string
  search_query :: string
  tweet_count :: nat
  refresh_rate :: nat
  use_location :: bool
  latitude_input :: real
  longitude_input :: real
  radius_input :: int
  clear_cache_clicked :: bool

text \<open>
  The effects of the script, in the order it performs them: calls of the Streamlit
  presentation functions, the construction of the API client, the search query sent to
  the API, the sleep and the rerun request.
\<close>

datatype event =
    OAuthHandler
  | SearchTweets string "string option" nat
  | StError string
  | StWarning string
  | StInfo string
  | StSubheader string
  | StCaption geo
  | StMetric string nat "real option"
  | StPlotlyChart string
  | StDataframe
  | StExpander string
  | StWriteLastUpdated nat
  | StDownloadButton
  | StWriteRefreshing nat
  | TimeSleep nat
  | StRerun

text \<open>
  What the script does not define is a parameter: the compound score of the sentiment
  analyser, the search API behind the cursor (the sequence of results of iterating it at
  a given time: each step yields a status or raises), the construction of the API client,
  Python's formatting of a float and of an int inside an f-string, the mean of a pandas
  column, and whether Streamlit can hash a client when it builds the key of a cached
  call.
\<close>

record 'api env =
  polarity_compound :: "string \<Rightarrow> exn + pyfloat"
  search_tweets :: "nat \<Rightarrow> 'api \<Rightarrow> string \<Rightarrow> string option \<Rightarrow> (exn + tweet) list"
  tweepy_API :: "string \<Rightarrow> string \<Rightarrow> string \<Rightarrow> string \<Rightarrow> exn + 'api"
  py_str :: "real \<Rightarrow> string"
  py_str_int :: "int \<Rightarrow> string"
  series_mean :: "pyfloat list \<Rightarrow> pyfloat"
  st_hashable :: "'api \<Rightarrow> bool"

text \<open>
  The state the script runs in: the clock in seconds, the store behind
  \<^verbatim>\<open>st.cache_data\<close> (each entry with the time it was stored at, under the key of
  section 4.3 of the specification: query, count and geo-filter or none), and the effects
  so far, each with the time it happened at.
\<close>

type_synonym cache_key = "string \<times> nat \<times> geo option"

record world =
  now :: nat
  cache :: "cache_key \<rightharpoonup> nat \<times> row list"
  trace :: "(nat \<times> event) list"

datatype outcome = Rerun | Finished

section \<open>The functions of the script\<close>

definition emit :: "event \<Rightarrow> world \<Rightarrow> world" where
  "emit ev w = w\<lparr>trace := trace w @ [(now w, ev)]\<rparr>"

definition time_sleep :: "nat \<Rightarrow> world \<Rightarrow> world" where
  "time_sleep n w = (emit (TimeSleep n) w)\<lparr>now := now w + n\<rparr>"

text \<open>
  \<^verbatim>\<open>try: body except Exception as e: handler\<close>: the handler runs in the state the body
  raised in.
\<close>

definition try_except ::
  "(exn + 'a) \<times> 'w \<Rightarrow> (exn \<Rightarrow> 'w \<Rightarrow> (exn + 'a) \<times> 'w) \<Rightarrow> (exn + 'a) \<times> 'w" where
  "try_except body handler =
     (case body of (Inr v, w) \<Rightarrow> (Inr v, w) | (Inl e, w) \<Rightarrow> handler e w)"

subsection \<open>\<^verbatim>\<open>authenticate_twitter\<close>\<close>

definition authenticate_twitter ::
  "'api env \<Rightarrow> string \<Rightarrow> string \<Rightarrow> string \<Rightarrow> string \<Rightarrow> world
     \<Rightarrow> (exn + 'api option) \<times> world" where
  "authenticate_twitter env k s t ts w =
     try_except
       (let w1 = emit OAuthHandler w in
        case tweepy_API env k s t ts of
          Inl e \<Rightarrow> (Inl e, w1)
        | Inr api \<Rightarrow> (Inr (Some api), w1))
       (\<lambda>e w'. case e of Exception msg \<Rightarrow>
          (Inr None, emit (StError (''Authentication failed: '' @ msg)) w'))"

subsection \<open>\<^verbatim>\<open>fetch_tweets\<close>\<close>

text \<open>
  The conditional expression of line 78:
  \<^verbatim>\<open>'positive' if c >= 0.05 else 'negative' if c <= -0.05 else 'neutral'\<close>.
\<close>

definition sentiment_label_of :: "pyfloat \<Rightarrow> string" where
  "sentiment_label_of c =
     (if py_ge c lit_0_05 then ''positive''
      else if py_le c (py_neg lit_0_05) then ''negative''
      else ''neutral'')"

definition tweet_row :: "tweet \<Rightarrow> pyfloat \<Rightarrow> row" where
  "tweet_row tw c =
     \<lparr>tweet_text = tw_full_text tw, user = tw_screen_name tw, location = tw_location tw,
      created_at = tw_created_at tw, retweets = tw_retweet_count tw,
      favorites = tw_favorite_count tw, sentiment = c,
      sentiment_label = sentiment_label_of c\<rparr>"

text \<open>
  The \<^verbatim>\<open>for tweet in tweets\<close> loop: the cursor raises, or yields a status that is scored
  and appended; the first exception ends the loop.
\<close>

fun collect_rows :: "(string \<Rightarrow> exn + pyfloat) \<Rightarrow> (exn + tweet) list \<Rightarrow> row list \<Rightarrow> exn + row list" where
  "collect_rows analyzer [] tweet_data = Inr tweet_data"
| "collect_rows analyzer (Inl e # rest) tweet_data = Inl e"
| "collect_rows analyzer (Inr tw # rest) tweet_data =
     (case analyzer (tw_full_text tw) of
        Inl e \<Rightarrow> Inl e
      | Inr c \<Rightarrow> collect_rows analyzer rest (tweet_data @ [tweet_row tw c]))"

text \<open>
  The f-string of line 62:
  \<^verbatim>\<open>f"{location['latitude']},{location['longitude']},{location['radius']}km"\<close>.
\<close>

definition geocode_of :: "(real \<Rightarrow> string) \<Rightarrow> (int \<Rightarrow> string) \<Rightarrow> geo \<Rightarrow> string" where
  "geocode_of str str_int l =
     str (latitude l) @ '','' @ str (longitude l) @ '','' @ str_int (radius l) @ ''km''"

text \<open>
  The body of the \<^verbatim>\<open>try\<close>. \<^verbatim>\<open>.items(count)\<close> stops the iteration after \<open>count\<close> statuses.
  A DataFrame is the list of its rows, \<^verbatim>\<open>df.empty\<close> is \<open>df = []\<close>.
\<close>

definition fetch_tweets_try ::
  "'api env \<Rightarrow> 'api \<Rightarrow> string \<Rightarrow> nat \<Rightarrow> geo option \<Rightarrow> world
     \<Rightarrow> (exn + row list) \<times> world" where
  "fetch_tweets_try env api query count loc w =
     (let geocode = (case loc of Some l \<Rightarrow> Some (geocode_of (py_str env) (py_str_int env) l) | None \<Rightarrow> None);
          w1 = emit (SearchTweets query geocode count) w;
          tweets = take count (search_tweets env (now w) api query geocode)
      in (collect_rows (polarity_compound env) tweets [], w1))"

text \<open>
  The function of lines 59 to 83 as \<^verbatim>\<open>def\<close> defines it, before the decorator of line 58
  is applied: the whole body is the \<^verbatim>\<open>try\<close>, and the handler shows the error and returns
  an empty DataFrame.
\<close>

definition fetch_tweets_body ::
  "'api env \<Rightarrow> 'api \<Rightarrow> string \<Rightarrow> nat \<Rightarrow> geo option \<Rightarrow> world
     \<Rightarrow> (exn + row list) \<times> world" where
  "fetch_tweets_body env api query count loc w =
     try_except (fetch_tweets_try env api query count loc w)
       (\<lambda>e w'. case e of Exception msg \<Rightarrow>
          (Inr [], emit (StError (''Error fetching tweets: '' @ msg)) w'))"

subsection \<open>The cache behind \<^verbatim>\<open>@st.cache_data(ttl=300)\<close>\<close>

text \<open>
  The memoisation that \<^verbatim>\<open>st.cache_data\<close> wraps around \<^verbatim>\<open>fetch_tweets\<close> is Streamlit's
  and not part of the repository; the next three definitions follow section 4.3 of the
  specification. Time is the clock of the state, in seconds.
\<close>

text \<open>
  Modelled from the spec: the lookup of \<^verbatim>\<open>st.cache_data\<close>, which the repository does not
  contain. ``On a cache hit within \<open>ttl\<close> seconds of the prior fetch for that exact key'' the
  stored batch is returned: an entry stored at \<open>stored\<close> is served while
  \<open>t < stored + ttl\<close>, and is expired from then on.
\<close>

definition cache_get :: "nat \<Rightarrow> nat \<Rightarrow> ('k \<rightharpoonup> nat \<times> 'v) \<Rightarrow> 'k \<Rightarrow> 'v option" where
  "cache_get ttl t c k =
     (case c k of
        None \<Rightarrow> None
      | Some (stored, v) \<Rightarrow> if t < stored + ttl then Some v else None)"

text \<open>
  Modelled from the spec: the wrapper of \<^verbatim>\<open>st.cache_data\<close>, which the repository does not
  contain. A hit ``returns the previously fetched batch without calling PostFetcher
  again. On miss or expiry, calls PostFetcher, stores the result with a timestamp, and
  returns it.'' A call that raises stores nothing.
\<close>

definition get_or_fetch ::
  "nat \<Rightarrow> cache_key \<Rightarrow> (world \<Rightarrow> (exn + row list) \<times> world) \<Rightarrow> world
     \<Rightarrow> (exn + row list) \<times> world" where
  "get_or_fetch ttl k fetch w =
     (case cache_get ttl (now w) (cache w) k of
        Some v \<Rightarrow> (Inr v, w)
      | None \<Rightarrow>
          (case fetch w of
             (Inl e, w') \<Rightarrow> (Inl e, w')
           | (Inr v, w') \<Rightarrow> (Inr v, w'\<lparr>cache := (cache w')(k \<mapsto> (now w', v))\<rparr>)))"

text \<open>
  Modelled from the spec: \<^verbatim>\<open>st.cache_data.clear()\<close>, which the repository does not
  contain: ``an explicit \<^verbatim>\<open>clear()\<close> operation that discards all entries''.
\<close>

definition cache_clear :: "world \<Rightarrow> world" where
  "cache_clear w = w\<lparr>cache := Map.empty\<rparr>"

text \<open>
  Modelled from the spec: the cache of section 4.3 around the fetch, which the repository
  does not contain. ``Key = (query, max_count, geo-filter-or-none)'', and the time to live
  is the \<^verbatim>\<open>ttl=300\<close> of line 58 (``Default TTL: 300 seconds''). The client is handed to
  the fetch and is not part of the key.
\<close>

definition cached_fetch_tweets ::
  "'api env \<Rightarrow> 'api \<Rightarrow> string \<Rightarrow> nat \<Rightarrow> geo option \<Rightarrow> world
     \<Rightarrow> (exn + row list) \<times> world" where
  "cached_fetch_tweets env api query count loc w =
     get_or_fetch 300 (query, count, loc) (fetch_tweets_body env api query count loc) w"

text \<open>
  The name \<^verbatim>\<open>fetch_tweets\<close> as the script binds it at lines 58 and 59 and calls it at
  line 118: the function above wrapped by \<^verbatim>\<open>@st.cache_data(ttl=300)\<close>. Before it looks
  anything up, and outside the \<^verbatim>\<open>try\<close> of the body, the wrapper hashes the arguments of
  every parameter whose name does not start with an underscore: \<^verbatim>\<open>query\<close>, \<^verbatim>\<open>count\<close>,
  \<^verbatim>\<open>location\<close>, and also \<^verbatim>\<open>api\<close>. A string, an int, a dict of numbers and \<^verbatim>\<open>None\<close>
  hash; for a client that Streamlit cannot hash the wrapper raises
  \<^verbatim>\<open>UnhashableParamError\<close>, and neither the cache nor the body is reached. When the
  client hashes, the call is served by the cache.
\<close>

definition unhashable_param :: exn where
  "unhashable_param = Exception ''UnhashableParamError: Cannot hash argument api''"

definition fetch_tweets ::
  "'api env \<Rightarrow> 'api \<Rightarrow> string \<Rightarrow> nat \<Rightarrow> geo option \<Rightarrow> world
     \<Rightarrow> (exn + row list) \<times> world" where
  "fetch_tweets env api query count loc w =
     (if st_hashable env api then cached_fetch_tweets env api query count loc w
      else (Inl unhashable_param, w))"

subsection \<open>\<^verbatim>\<open>generate_summary\<close>\<close>

definition generate_summary :: "'api env \<Rightarrow> row list \<Rightarrow> summary option" where
  "generate_summary env df =
     (if df = [] then None
      else Some
        \<lparr>total_tweets = length df,
         positive = length (filter (\<lambda>r. sentiment_label r = ''positive'') df),
         neutral = length (filter (\<lambda>r. sentiment_label r = ''neutral'') df),
         negative = length (filter (\<lambda>r. sentiment_label r = ''negative'') df),
         avg_sentiment = series_mean env (map sentiment df)\<rparr>)"

subsection \<open>The main dashboard\<close>

text \<open>
  Lines 121 to 145, the branch of a non-empty DataFrame. Subscripting the result of
  \<^verbatim>\<open>generate_summary\<close> raises when it is \<^verbatim>\<open>None\<close>; each delta of a metric is
  evaluated, division first, before the metric is shown. The charts and the table are
  kept as the calls that show them.
\<close>

definition show_results :: "'api env \<Rightarrow> row list \<Rightarrow> world \<Rightarrow> (exn + unit) \<times> world" where
  "show_results env tweets_df w =
     (case generate_summary env tweets_df of
        None \<Rightarrow> (Inl (Exception ''TypeError: NoneType object is not subscriptable''), w)
      | Some s \<Rightarrow>
          let w1 = emit (StMetric ''Total Tweets'' (total_tweets s) None) w in
          (case py_truediv (positive s) (total_tweets s) of
             Inl e \<Rightarrow> (Inl e, w1)
           | Inr p \<Rightarrow>
               let w2 = emit (StMetric ''Positive Sentiment'' (positive s) (Some (p * 100))) w1 in
               (case py_truediv (neutral s) (total_tweets s) of
                  Inl e \<Rightarrow> (Inl e, w2)
                | Inr u \<Rightarrow>
                    let w3 = emit (StMetric ''Neutral Sentiment'' (neutral s) (Some (u * 100))) w2 in
                    (case py_truediv (negative s) (total_tweets s) of
                       Inl e \<Rightarrow> (Inl e, w3)
                     | Inr n \<Rightarrow>
                         let w4 = emit (StMetric ''Negative Sentiment'' (negative s) (Some (n * 100))) w3;
                             w5 = emit (StSubheader ''Sentiment Distribution'') w4;
                             w6 = emit (StPlotlyChart ''Sentiment Breakdown'') w5;
                             w7 = emit (StSubheader ''Sentiment Over Time'') w6;
                             w8 = emit (StPlotlyChart ''Sentiment by Time'') w7;
                             w9 = emit (StSubheader ''Recent Tweets'') w8
                         in (Inr (), emit StDataframe w9)))))"

text \<open>Lines 120 to 148: \<^verbatim>\<open>if not tweets_df.empty: ... else: st.warning(...)\<close>.\<close>

definition render_batch :: "'api env \<Rightarrow> row list \<Rightarrow> world \<Rightarrow> (exn + unit) \<times> world" where
  "render_batch env tweets_df w =
     (if tweets_df \<noteq> [] then show_results env tweets_df w
      else (Inr (), emit (StWarning ''No tweets found matching your criteria.'') w))"

text \<open>Lines 151 to 160, the expander.\<close>

definition admin_section :: "row list \<Rightarrow> world \<Rightarrow> world" where
  "admin_section tweets_df w =
     (let w1 = emit (StExpander ''Admin Monitoring'') w;
          w2 = emit (StSubheader ''System Status'') w1;
          w3 = emit (StWriteLastUpdated (now w2)) w2
      in if tweets_df \<noteq> [] then emit StDownloadButton w3 else w3)"

text \<open>
  The body of \<^verbatim>\<open>while True\<close>, lines 112 to 165, up to the rerun request of its last
  line, which ends the run of the script. The heading is the f-string of line 113,
  \<^verbatim>\<open>f"Real-time Analysis for: '{search_query}'"\<close>, with the query between single quotes
  (the character \<open>0x27\<close>). An exception raised by the call of line 118 is not caught
  anywhere in the script and ends the run.
\<close>

definition analysis_heading :: "string \<Rightarrow> string" where
  "analysis_heading q = ''Real-time Analysis for: '' @ [CHR 0x27] @ q @ [CHR 0x27]"

definition refresh_cycle ::
  "'api env \<Rightarrow> config \<Rightarrow> 'api \<Rightarrow> geo option \<Rightarrow> world \<Rightarrow> (exn + outcome) \<times> world" where
  "refresh_cycle env cfg api loc w =
     (let w1 = emit (StSubheader (analysis_heading (search_query cfg))) w;
          w2 = (case loc of Some l \<Rightarrow> emit (StCaption l) w1 | None \<Rightarrow> w1)
      in case fetch_tweets env api (search_query cfg) (tweet_count cfg) loc w2 of
           (Inl e, w3) \<Rightarrow> (Inl e, w3)
         | (Inr tweets_df, w3) \<Rightarrow>
             (case render_batch env tweets_df w3 of
                (Inl e, w4) \<Rightarrow> (Inl e, w4)
              | (Inr _, w4) \<Rightarrow>
                  let w5 = admin_section tweets_df w4;
                      w6 = emit (StWriteRefreshing (refresh_rate cfg)) w5;
                      w7 = time_sleep (refresh_rate cfg) w6
                  in (Inr Rerun, emit StRerun w7)))"

definition credentials_present :: "config \<Rightarrow> bool" where
  "credentials_present cfg =
     (api_key cfg \<noteq> [] \<and> api_secret cfg \<noteq> [] \<and> access_token cfg \<noteq> [] \<and> access_secret cfg \<noteq> [])"

definition location_of :: "config \<Rightarrow> geo option" where
  "location_of cfg =
     (if use_location cfg
      then Some \<lparr>latitude = latitude_input cfg, longitude = longitude_input cfg,
              radius = radius_input cfg\<rparr>
      else None)"

text \<open>
  One run of the script: the Clear Cache button of the sidebar (lines 41 and 42), then
  the main dashboard (lines 100 to 169).
\<close>

definition sidebar :: "config \<Rightarrow> world \<Rightarrow> world" where
  "sidebar cfg w = (if clear_cache_clicked cfg then cache_clear w else w)"

definition dashboard :: "'api env \<Rightarrow> config \<Rightarrow> world \<Rightarrow> (exn + outcome) \<times> world" where
  "dashboard env cfg w =
     (let w0 = sidebar cfg w in
      if credentials_present cfg then
        (case authenticate_twitter env (api_key cfg) (api_secret cfg) (access_token cfg)
                (access_secret cfg) w0 of
           (Inl e, w1) \<Rightarrow> (Inl e, w1)
         | (Inr None, w1) \<Rightarrow>
             (Inr Finished,
              emit (StWarning ''Please enter valid Twitter API credentials to proceed.'') w1)
         | (Inr (Some api), w1) \<Rightarrow> refresh_cycle env cfg api (location_of cfg) w1)
      else
        (Inr Finished,
         emit (StInfo ''Please enter your Twitter API credentials in the sidebar to begin.'') w0))"

section \<open>Observations on a trace\<close>

fun is_search :: "event \<Rightarrow> bool" where
  "is_search (SearchTweets q g n) = True"
| "is_search ev = False"

definition api_queries :: "(nat \<times> event) list \<Rightarrow> nat" where
  "api_queries tr = length (filter (\<lambda>te. is_search (snd te)) tr)"

definition events :: "world \<Rightarrow> event list" where
  "events w = map snd (trace w)"

text \<open>A batch whose stored labels are the labels of its stored scores.\<close>

definition scored_batch :: "row list \<Rightarrow> bool" where
  "scored_batch df = list_all (\<lambda>r. sentiment_label r = sentiment_label_of (sentiment r)) df"

text \<open>
  The geocode argument of the search, the steps of the cursor that a call of
  \<^verbatim>\<open>fetch_tweets\<close> at time \<open>t\<close> iterates over, and whether iterating and scoring them
  raises: a step raises, or the analyser raises on a status that was yielded.
\<close>

definition geocode_opt :: "'api env \<Rightarrow> geo option \<Rightarrow> string option" where
  "geocode_opt env loc = (case loc of Some l \<Rightarrow> Some (geocode_of (py_str env) (py_str_int env) l) | None \<Rightarrow> None)"

definition cursor_steps :: "'api env \<Rightarrow> 'api \<Rightarrow> string \<Rightarrow> nat \<Rightarrow> geo option \<Rightarrow> nat \<Rightarrow> (exn + tweet) list" where
  "cursor_steps env api query count loc t =
     take count (search_tweets env t api query (geocode_opt env loc))"

definition raises_in :: "(string \<Rightarrow> exn + pyfloat) \<Rightarrow> (exn + tweet) list \<Rightarrow> bool" where
  "raises_in analyzer steps =
     list_ex (\<lambda>st. case st of Inl e \<Rightarrow> True | Inr tw \<Rightarrow> isl (analyzer (tw_full_text tw))) steps"

text \<open>The state after the heading and the caption with which a cycle starts.\<close>

definition cycle_header :: "config \<Rightarrow> geo option \<Rightarrow> world \<Rightarrow> world" where
  "cycle_header cfg loc w =
     (let w1 = emit (StSubheader (analysis_heading (search_query cfg))) w
      in case loc of Some l \<Rightarrow> emit (StCaption l) w1 | None \<Rightarrow> w1)"

section \<open>Test data\<close>

text \<open>
  Concrete inputs for the closed theorems below: a status, three scores (0.6, 0.0 and
  -0.6 as doubles), and widget values with all four credentials. In \<open>test_env\<close> the
  search yields one status, the analyser scores every text 0.6, and the client cannot be
  hashed, as Streamlit cannot hash the object that \<^verbatim>\<open>tweepy.API(auth)\<close> returns;
  \<open>failing_env\<close> is the same with a search that raises; \<open>hashable_env\<close> is \<open>test_env\<close> with
  a stand-in client that hashes.
\<close>

definition test_tweet :: tweet where
  "test_tweet = \<lparr>tw_full_text = ''good'', tw_screen_name = ''a'', tw_location = ''x'',
      tw_created_at = 0, tw_retweet_count = 0, tw_favorite_count = 0\<rparr>"

definition score_pos :: pyfloat where
  "score_pos = PyFloat 5404319552844595 (- 53)"

definition score_zero :: pyfloat where
  "score_zero = PyFloat 0 0"

definition score_neg :: pyfloat where
  "score_neg = PyFloat (- 5404319552844595) (- 53)"

definition test_env :: "nat env" where
  "test_env =
     \<lparr>polarity_compound = (\<lambda>txt. Inr score_pos),
      search_tweets = (\<lambda>t api q g. [Inr test_tweet]),
      tweepy_API = (\<lambda>k s t ts. Inr (length k)),
      py_str = (\<lambda>x. ''0.0''),
      py_str_int = (\<lambda>x. ''50''),
      series_mean = (\<lambda>xs. score_zero),
      st_hashable = (\<lambda>api. False)\<rparr>"


definition hashable_env :: "nat env" where
  "hashable_env = test_env\<lparr>st_hashable := (\<lambda>api. True)\<rparr>"

definition test_cfg :: config where
  "test_cfg =
     \<lparr>api_key = ''k'', api_secret = ''s'', access_token = ''t'', access_secret = ''u'',
      search_query = ''#test'', tweet_count = 10, refresh_rate = 300, use_location = False,
      latitude_input = 0, longitude_input = 0, radius_input = 50,
      clear_cache_clicked = False\<rparr>"

definition test_geo :: geo where
  "test_geo = \<lparr>latitude = 0, longitude = 0, radius = 50\<rparr>"

definition init_world :: world where
  "init_world = \<lparr>now = 0, cache = Map.empty, trace = []\<rparr>"

definition test_batch :: "row list" where
  "test_batch = [tweet_row test_tweet score_pos, tweet_row test_tweet score_zero,
     tweet_row test_tweet score_neg]"

section \<open>The sentiment label\<close>

lemma valof_lit: "valof lit_0_05 = 7205759403792794 / 2 ^ 57"
  by (simp add: lit_0_05_def)

lemma valof_neg: "valof (py_neg x) = - valof x"
  by (cases x) simp

text \<open>From exponent -57 upwards a double is a whole multiple of \<open>2 ^ - 57\<close>.\<close>

lemma valof_scaled:
  assumes "- 57 \<le> e"
  shows "valof (PyFloat m e) = real_of_int (m * 2 ^ nat (e + 57)) / 2 ^ 57"
proof (cases "0 \<le> e")
  case True
  then have "nat (e + 57) = nat e + 57" by simp
  then show ?thesis using True by (simp add: power_add)
next
  case False
  with assms have "nat (- e) + nat (e + 57) = 57" by simp
  then have "(2::real) ^ 57 = 2 ^ nat (- e) * 2 ^ nat (e + 57)"
    by (metis power_add)
  then show ?thesis using False by (simp add: field_simps)
qed

text \<open>Below exponent -57 a double is smaller than 1/32 in absolute value.\<close>

lemma valof_small:
  assumes "e < - 57" and "\<bar>m\<bar> < 2 ^ 53"
  shows "\<bar>valof (PyFloat m e)\<bar> < 1 / 32"
proof -
  from assms(1) have "58 \<le> nat (- e)" by simp
  then have "(2::real) ^ 58 \<le> 2 ^ nat (- e)"
    by (intro power_increasing) simp_all
  moreover have "\<bar>real_of_int m\<bar> < 2 ^ 53"
    using assms(2) by (metis of_int_abs of_int_less_numeral_power_cancel_iff)
  ultimately have "\<bar>real_of_int m\<bar> * 32 < 2 ^ nat (- e)"
    by simp
  then have "\<bar>real_of_int m\<bar> / 2 ^ nat (- e) < 1 / 32"
    by (simp add: field_simps)
  then show ?thesis using assms(1) by simp
qed

lemma int_threshold: "(2 ^ 57 \<le> 20 * k) = (7205759403792794 \<le> (k::int))"
  by (simp del: mult_le_cancel_left) arith

text \<open>
  No double lies between 1/20 and the literal: comparing a double with the literal is
  comparing it with 1/20.
\<close>

lemma ge_lit_iff:
  assumes "\<bar>m\<bar> < 2 ^ 53"
  shows "(valof lit_0_05 \<le> valof (PyFloat m e)) = (5 / 100 \<le> valof (PyFloat m e))"
proof (cases "- 57 \<le> e")
  case True
  define k where "k = m * 2 ^ nat (e + 57)"
  have v: "valof (PyFloat m e) = real_of_int k / 2 ^ 57"
    unfolding k_def by (rule valof_scaled [OF True])
  have "(valof lit_0_05 \<le> real_of_int k / 2 ^ 57) = (real_of_int 7205759403792794 \<le> real_of_int k)"
    by (simp add: valof_lit divide_le_cancel)
  also have "\<dots> = (7205759403792794 \<le> k)"
    by (simp only: of_int_le_iff)
  also have "\<dots> = (2 ^ 57 \<le> 20 * k)"
    by (simp only: int_threshold)
  also have "\<dots> = (real_of_int (2 ^ 57) \<le> real_of_int (20 * k))"
    by (simp only: of_int_le_iff)
  also have "\<dots> = (5 / 100 \<le> real_of_int k / 2 ^ 57)"
    by (simp add: field_simps)
  finally show ?thesis by (simp only: v)
next
  case False
  then have "e < - 57" by simp
  from valof_small [OF this assms] have "valof (PyFloat m e) < 1 / 32"
    by linarith
  moreover have "(1::real) / 32 < valof lit_0_05"
    by (simp add: valof_lit)
  ultimately show ?thesis by simp
qed

lemma py_ge_lit:
  assumes "finite_double c"
  shows "py_ge c lit_0_05 = (5 / 100 \<le> valof c)"
proof (cases c)
  case (PyFloat m e)
  with assms have "\<bar>m\<bar> < 2 ^ 53" by (simp add: finite_double_def)
  then show ?thesis unfolding py_ge_def PyFloat by (rule ge_lit_iff)
qed

lemma py_le_neg_lit:
  assumes "finite_double c"
  shows "py_le c (py_neg lit_0_05) = (valof c \<le> - (5 / 100))"
proof (cases c)
  case (PyFloat m e)
  with assms have "\<bar>- m\<bar> < 2 ^ 53" by (simp add: finite_double_def)
  then have "(valof lit_0_05 \<le> valof (PyFloat (- m) e)) = (5 / 100 \<le> valof (PyFloat (- m) e))"
    by (rule ge_lit_iff)
  moreover have "valof (PyFloat (- m) e) = - valof c"
    using PyFloat valof_neg [of c] by simp
  ultimately show ?thesis
    unfolding py_le_def valof_neg by linarith
qed

text \<open>
  C1. For every finite double \<open>c\<close> that the analyser returns as compound score, the label
  stored with it in the row is \<^verbatim>\<open>positive\<close> exactly when \<open>c \<ge> 0.05\<close>, \<^verbatim>\<open>negative\<close> exactly
  when \<open>c \<le> -0.05\<close>, and \<^verbatim>\<open>neutral\<close> exactly when neither holds, the thresholds being the
  numbers 1/20 and -1/20; the score is stored unchanged; and at the two boundary values
  themselves, the doubles written \<^verbatim>\<open>0.05\<close> and \<^verbatim>\<open>-0.05\<close>, the labels are \<^verbatim>\<open>positive\<close>
  and \<^verbatim>\<open>negative\<close>.
\<close>

theorem sentiment_label_thresholds:
  assumes "finite_double c"
  shows "(sentiment_label (tweet_row tw c) = ''positive'') = (5 / 100 \<le> valof c)
       \<and> (sentiment_label (tweet_row tw c) = ''negative'') = (valof c \<le> - (5 / 100))
       \<and> (sentiment_label (tweet_row tw c) = ''neutral'')
           = (\<not> 5 / 100 \<le> valof c \<and> \<not> valof c \<le> - (5 / 100))
       \<and> sentiment (tweet_row tw c) = c
       \<and> sentiment_label (tweet_row tw lit_0_05) = ''positive''
       \<and> sentiment_label (tweet_row tw (py_neg lit_0_05)) = ''negative''"
proof -
  have l: "sentiment_label (tweet_row tw x) = sentiment_label_of x" for x
    by (simp add: tweet_row_def)
  have pos: "py_ge c lit_0_05 = (5 / 100 \<le> valof c)"
    by (rule py_ge_lit [OF assms])
  have neg: "py_le c (py_neg lit_0_05) = (valof c \<le> - (5 / 100))"
    by (rule py_le_neg_lit [OF assms])
  have b1: "sentiment_label_of lit_0_05 = ''positive''"
    by (simp add: sentiment_label_of_def py_ge_def)
  have b2: "sentiment_label_of (py_neg lit_0_05) = ''negative''"
    by (simp add: sentiment_label_of_def py_ge_def py_le_def valof_neg valof_lit)
  have c1: "(sentiment_label_of c = ''positive'') = (5 / 100 \<le> valof c)"
    by (simp add: sentiment_label_of_def pos neg)
  have c2: "(sentiment_label_of c = ''negative'') = (valof c \<le> - (5 / 100))"
    by (auto simp add: sentiment_label_of_def pos neg)
  have c3: "(sentiment_label_of c = ''neutral'')
      = (\<not> 5 / 100 \<le> valof c \<and> \<not> valof c \<le> - (5 / 100))"
    by (simp add: sentiment_label_of_def pos neg)
  show ?thesis
    by (simp only: l c1 c2 c3 b1 b2 tweet_row_def row.simps simp_thms)
qed

theorem sentiment_label_thresholds_witness:
  "finite_double score_pos
   \<and> sentiment_label (tweet_row test_tweet score_pos) = ''positive''
   \<and> finite_double score_zero
   \<and> sentiment_label (tweet_row test_tweet score_zero) = ''neutral''
   \<and> finite_double score_neg
   \<and> sentiment_label (tweet_row test_tweet score_neg) = ''negative''"
proof -
  have a: "finite_double score_pos"
    and b: "finite_double score_zero"
    and c: "finite_double score_neg"
    by (simp_all add: finite_double_def score_pos_def score_zero_def score_neg_def)
  show ?thesis
    using a b c
      sentiment_label_thresholds [OF a, of test_tweet]
      sentiment_label_thresholds [OF b, of test_tweet]
      sentiment_label_thresholds [OF c, of test_tweet]
    by (simp add: score_pos_def score_zero_def score_neg_def)
qed

section \<open>The summary\<close>

lemma three_way_count:
  assumes "list_all (\<lambda>r. f r = a \<or> f r = b \<or> f r = c) xs"
    and "a \<noteq> b" and "a \<noteq> c" and "b \<noteq> c"
  shows "length (filter (\<lambda>r. f r = a) xs) + length (filter (\<lambda>r. f r = c) xs)
       + length (filter (\<lambda>r. f r = b) xs) = length xs"
  using assms by (induction xs) auto

lemma sentiment_label_of_cases:
  "sentiment_label_of c = ''positive'' \<or> sentiment_label_of c = ''negative''
   \<or> sentiment_label_of c = ''neutral''"
  by (simp add: sentiment_label_of_def)

lemma scored_batch_labels:
  assumes "scored_batch df"
  shows "list_all (\<lambda>r. sentiment_label r = ''positive'' \<or> sentiment_label r = ''negative''
      \<or> sentiment_label r = ''neutral'') df"
proof -
  have "sentiment_label r = ''positive'' \<or> sentiment_label r = ''negative''
      \<or> sentiment_label r = ''neutral''"
    if "sentiment_label r = sentiment_label_of (sentiment r)" for r
    using that sentiment_label_of_cases [of "sentiment r"] by simp
  with assms show ?thesis
    unfolding scored_batch_def list_all_iff by blast
qed

lemma collect_rows_scored:
  assumes "collect_rows analyzer steps acc = Inr df" and "scored_batch acc"
  shows "scored_batch df"
  using assms
proof (induction analyzer steps acc rule: collect_rows.induct)
  case (1 analyzer tweet_data)
  then show ?case by simp
next
  case (2 analyzer e rest tweet_data)
  then show ?case by simp
next
  case (3 analyzer tw rest tweet_data)
  show ?case
  proof (cases "analyzer (tw_full_text tw)")
    case (Inl e)
    with 3 show ?thesis by simp
  next
    case (Inr c)
    have "scored_batch (tweet_data @ [tweet_row tw c])"
      using "3.prems"(2) by (simp add: scored_batch_def tweet_row_def)
    with 3 Inr show ?thesis by simp
  qed
qed

text \<open>
  C2. For every batch of scored posts (rows whose stored label is the label of their
  stored score, as \<^verbatim>\<open>fetch_tweets\<close> builds them), the summary that
  \<^verbatim>\<open>generate_summary\<close> produces has \<open>positive + neutral + negative = total_tweets\<close>,
  the total is the number of rows and each count is the number of rows carrying that
  label. No summary is produced only for the empty batch.
\<close>

theorem generate_summary_counts:
  assumes "scored_batch df"
  shows "case generate_summary env df of
           None \<Rightarrow> df = []
         | Some s \<Rightarrow>
             positive s + neutral s + negative s = total_tweets s
             \<and> total_tweets s = length df
             \<and> positive s = length (filter (\<lambda>r. sentiment_label r = ''positive'') df)
             \<and> neutral s = length (filter (\<lambda>r. sentiment_label r = ''neutral'') df)
             \<and> negative s = length (filter (\<lambda>r. sentiment_label r = ''negative'') df)"
proof (cases "df = []")
  case True
  then show ?thesis by (simp add: generate_summary_def)
next
  case False
  have "length (filter (\<lambda>r. sentiment_label r = ''positive'') df)
      + length (filter (\<lambda>r. sentiment_label r = ''neutral'') df)
      + length (filter (\<lambda>r. sentiment_label r = ''negative'') df) = length df"
    by (rule three_way_count [OF scored_batch_labels [OF assms]]) simp_all
  with False show ?thesis by (simp add: generate_summary_def)
qed

theorem generate_summary_counts_witness:
  "scored_batch test_batch
   \<and> generate_summary test_env test_batch =
       Some \<lparr>total_tweets = 3, positive = 1, neutral = 1, negative = 1,
             avg_sentiment = score_zero\<rparr>"
proof -
  have sb: "scored_batch test_batch"
    by (simp add: scored_batch_def test_batch_def tweet_row_def)
  show ?thesis
    using sb generate_summary_counts [OF sb, of test_env]
    by (simp add: generate_summary_def test_batch_def tweet_row_def sentiment_label_of_def
        py_ge_def py_le_def lit_0_05_def score_pos_def score_zero_def score_neg_def
        test_env_def)
qed

text \<open>
  C3, as stated, fails: for the empty batch \<^verbatim>\<open>generate_summary\<close> returns \<^verbatim>\<open>None\<close>,
  not a summary with four zero counts and an undefined mean.
\<close>

theorem generate_summary_empty_counterexample:
  "generate_summary test_env [] = None
   \<and> generate_summary test_env [] \<noteq>
       Some \<lparr>total_tweets = 0, positive = 0, neutral = 0, negative = 0,
             avg_sentiment = series_mean test_env []\<rparr>"
  by (simp add: generate_summary_def)

text \<open>
  C3, amended. Applied to an empty batch, \<^verbatim>\<open>generate_summary\<close> returns \<^verbatim>\<open>None\<close>: no
  summary at all, so no total, no sub-count and no mean; it returns \<^verbatim>\<open>None\<close> for no
  other batch, and the summary of a non-empty batch has a positive total.
\<close>

theorem generate_summary_empty:
  "generate_summary env [] = None
   \<and> (generate_summary env df = None) = (df = [])
   \<and> (df \<noteq> [] \<longrightarrow> (\<exists>s. generate_summary env df = Some s \<and> 0 < total_tweets s))"
  by (simp add: generate_summary_def)

theorem generate_summary_empty_witness:
  "generate_summary test_env [] = None
   \<and> test_batch \<noteq> []
   \<and> (\<exists>s. generate_summary test_env test_batch = Some s \<and> 0 < total_tweets s)"
  using generate_summary_empty [of test_env test_batch]
  by (simp add: test_batch_def)

section \<open>Fetching\<close>

lemma now_emit [simp]: "now (emit ev w) = now w"
  by (simp add: emit_def)

lemma cache_emit [simp]: "cache (emit ev w) = cache w"
  by (simp add: emit_def)

lemma trace_emit [simp]: "trace (emit ev w) = trace w @ [(now w, ev)]"
  by (simp add: emit_def)

lemma collect_rows_raises:
  "isl (collect_rows analyzer steps acc) = raises_in analyzer steps"
proof (induction analyzer steps acc rule: collect_rows.induct)
  case (1 analyzer tweet_data)
  show ?case by (simp add: raises_in_def)
next
  case (2 analyzer e rest tweet_data)
  show ?case by (simp add: raises_in_def)
next
  case (3 analyzer tw rest tweet_data)
  show ?case
  proof (cases "analyzer (tw_full_text tw)")
    case (Inl e)
    then show ?thesis by (simp add: raises_in_def)
  next
    case (Inr c)
    with 3 show ?thesis by (simp add: raises_in_def)
  qed
qed

lemma fetch_tweets_try_eq:
  "fetch_tweets_try env api query count loc w =
     (collect_rows (polarity_compound env) (cursor_steps env api query count loc (now w)) [],
      emit (SearchTweets query (geocode_opt env loc) count) w)"
  by (simp add: fetch_tweets_try_def cursor_steps_def geocode_opt_def Let_def)

lemma fetch_tweets_eq:
  "fetch_tweets_body env api query count loc w =
     (case collect_rows (polarity_compound env) (cursor_steps env api query count loc (now w)) [] of
        Inr df \<Rightarrow> (Inr df, emit (SearchTweets query (geocode_opt env loc) count) w)
      | Inl e \<Rightarrow> (case e of Exception msg \<Rightarrow>
          (Inr [], emit (StError (''Error fetching tweets: '' @ msg))
                     (emit (SearchTweets query (geocode_opt env loc) count) w))))"
  by (simp add: fetch_tweets_body_def fetch_tweets_try_eq try_except_def split: sum.splits exn.splits)

lemma fetch_tweets_returns:
  "\<exists>df w'. fetch_tweets_body env api query count loc w = (Inr df, w')"
  by (simp add: fetch_tweets_eq split: sum.splits exn.splits)

lemma fetch_tweets_now [simp]: "now (snd (fetch_tweets_body env api query count loc w)) = now w"
  by (simp add: fetch_tweets_eq split: sum.splits exn.splits)

lemma fetch_tweets_cache [simp]: "cache (snd (fetch_tweets_body env api query count loc w)) = cache w"
  by (simp add: fetch_tweets_eq split: sum.splits exn.splits)

text \<open>
  The function as \<^verbatim>\<open>def\<close> defines it is total: it returns a DataFrame and raises
  nothing, and when iterating the cursor or scoring a status raises, that is when the
  body of its \<^verbatim>\<open>try\<close> raises, the DataFrame it returns is empty.
\<close>

lemma fetch_tweets_body_total:
  "(\<exists>df w'. fetch_tweets_body env api query count loc w = (Inr df, w'))
   \<and> (raises_in (polarity_compound env) (cursor_steps env api query count loc (now w))
        \<longrightarrow> fst (fetch_tweets_body env api query count loc w) = Inr [])
   \<and> (isl (fst (fetch_tweets_try env api query count loc w))
        \<longrightarrow> fst (fetch_tweets_body env api query count loc w) = Inr [])"
proof -
  have r: "isl (collect_rows (polarity_compound env) (cursor_steps env api query count loc (now w)) [])
      \<Longrightarrow> fst (fetch_tweets_body env api query count loc w) = Inr []"
    by (cases "collect_rows (polarity_compound env) (cursor_steps env api query count loc (now w)) []")
      (simp_all add: fetch_tweets_eq split: exn.splits)
  show ?thesis
    using r by (simp add: fetch_tweets_returns collect_rows_raises fetch_tweets_try_eq)
qed

text \<open>The decorated name: a client that cannot be hashed, a client that can.\<close>

lemma fetch_tweets_unhashable:
  "\<not> st_hashable env api \<Longrightarrow>
     fetch_tweets env api query count loc w = (Inl unhashable_param, w)"
  by (simp add: fetch_tweets_def)

lemma fetch_tweets_hashable:
  "st_hashable env api \<Longrightarrow>
     fetch_tweets env api query count loc w = cached_fetch_tweets env api query count loc w"
  by (simp add: fetch_tweets_def)

text \<open>
  C9, at a failing input. \<^verbatim>\<open>fetch_tweets\<close> is called with the client that
  \<^verbatim>\<open>authenticate_twitter\<close> returned, the query \<^verbatim>\<open>#test\<close>, count 10 and no location, in a
  fresh session. The wrapper of \<^verbatim>\<open>st.cache_data\<close> cannot hash the client: the call
  raises \<^verbatim>\<open>UnhashableParamError\<close> and returns no DataFrame; the body with its
  \<^verbatim>\<open>try\<close> is not entered, no search query is sent and nothing is shown.
\<close>

theorem fetch_tweets_call_raises:
  "fetch_tweets test_env 1 ''#test'' 10 None init_world = (Inl unhashable_param, init_world)
   \<and> events (snd (fetch_tweets test_env 1 ''#test'' 10 None init_world)) = []"
  by (simp add: fetch_tweets_def test_env_def events_def init_world_def)

section \<open>Rendering a batch\<close>

lemma show_results_ok:
  assumes "tweets_df \<noteq> []"
  shows "fst (show_results env tweets_df w) = Inr ()"
    and "now (snd (show_results env tweets_df w)) = now w"
    and "cache (snd (show_results env tweets_df w)) = cache w"
  using assms
  by (simp_all add: show_results_def generate_summary_def py_truediv_def Let_def)

lemma render_batch_ok [simp]:
  "fst (render_batch env tweets_df w) = Inr ()"
  "now (snd (render_batch env tweets_df w)) = now w"
  "cache (snd (render_batch env tweets_df w)) = cache w"
  by (simp_all add: render_batch_def show_results_ok)

text \<open>
  C8. The percentages are not fields of the summary: they are computed from it when the
  metrics are shown, by divisions through \<open>total_tweets\<close>. Rendering a batch never raises:
  for the empty batch only the warning is shown and no division is evaluated; for a
  non-empty batch the summary exists, its total is not 0 and each of the three divisions
  returns a quotient. A division by a total of 0 would raise.
\<close>

theorem percentages_guarded:
  "fst (render_batch env tweets_df w) = Inr ()
   \<and> (tweets_df = [] \<longrightarrow>
        render_batch env tweets_df w =
          (Inr (), emit (StWarning ''No tweets found matching your criteria.'') w))
   \<and> (tweets_df \<noteq> [] \<longrightarrow>
        render_batch env tweets_df w = show_results env tweets_df w
        \<and> (\<exists>s. generate_summary env tweets_df = Some s \<and> total_tweets s \<noteq> 0
             \<and> py_truediv (positive s) (total_tweets s)
                 = Inr (real (positive s) / real (total_tweets s))
             \<and> py_truediv (neutral s) (total_tweets s)
                 = Inr (real (neutral s) / real (total_tweets s))
             \<and> py_truediv (negative s) (total_tweets s)
                 = Inr (real (negative s) / real (total_tweets s))))
   \<and> py_truediv n 0 = Inl (Exception ''ZeroDivisionError: division by zero'')"
proof -
  have a: "fst (render_batch env tweets_df w) = Inr ()" by simp
  have b: "tweets_df = [] \<longrightarrow>
        render_batch env tweets_df w =
          (Inr (), emit (StWarning ''No tweets found matching your criteria.'') w)"
    by (simp add: render_batch_def)
  have c: "tweets_df \<noteq> [] \<longrightarrow> render_batch env tweets_df w = show_results env tweets_df w"
    by (simp add: render_batch_def)
  have d: "tweets_df \<noteq> [] \<longrightarrow>
        (\<exists>s. generate_summary env tweets_df = Some s \<and> total_tweets s \<noteq> 0
             \<and> py_truediv (positive s) (total_tweets s)
                 = Inr (real (positive s) / real (total_tweets s))
             \<and> py_truediv (neutral s) (total_tweets s)
                 = Inr (real (neutral s) / real (total_tweets s))
             \<and> py_truediv (negative s) (total_tweets s)
                 = Inr (real (negative s) / real (total_tweets s)))"
    by (simp add: generate_summary_def py_truediv_def)
  have e: "py_truediv n 0 = Inl (Exception ''ZeroDivisionError: division by zero'')"
    by (simp add: py_truediv_def)
  from a b c d e show ?thesis by blast
qed

theorem percentages_guarded_witness:
  "render_batch test_env [] init_world =
     (Inr (), emit (StWarning ''No tweets found matching your criteria.'') init_world)
   \<and> test_batch \<noteq> []
   \<and> fst (render_batch test_env test_batch init_world) = Inr ()
   \<and> take 4 (events (snd (render_batch test_env test_batch init_world))) =
       [StMetric ''Total Tweets'' 3 None,
        StMetric ''Positive Sentiment'' 1 (Some (100 / 3)),
        StMetric ''Neutral Sentiment'' 1 (Some (100 / 3)),
        StMetric ''Negative Sentiment'' 1 (Some (100 / 3))]"
proof -
  have lab: "map sentiment_label test_batch = [''positive'', ''neutral'', ''negative'']"
    by (simp add: test_batch_def tweet_row_def sentiment_label_of_def py_ge_def py_le_def
        lit_0_05_def score_pos_def score_zero_def score_neg_def)
  have ne: "test_batch \<noteq> []"
    by (simp add: test_batch_def)
  have s: "generate_summary test_env test_batch =
      Some \<lparr>total_tweets = 3, positive = 1, neutral = 1, negative = 1,
            avg_sentiment = score_zero\<rparr>"
    using lab by (simp add: generate_summary_def test_batch_def test_env_def)
  have ev: "take 4 (events (snd (show_results test_env test_batch init_world))) =
       [StMetric ''Total Tweets'' 3 None,
        StMetric ''Positive Sentiment'' 1 (Some (100 / 3)),
        StMetric ''Neutral Sentiment'' 1 (Some (100 / 3)),
        StMetric ''Negative Sentiment'' 1 (Some (100 / 3))]"
    by (simp add: show_results_def s py_truediv_def Let_def events_def init_world_def emit_def)
  show ?thesis
    using ne ev percentages_guarded [of test_env "[]" init_world 0]
      percentages_guarded [of test_env test_batch init_world 0]
    by (simp add: show_results_ok)
qed

section \<open>The cached fetch\<close>

lemma api_queries_append [simp]: "api_queries (xs @ ys) = api_queries xs + api_queries ys"
  by (simp add: api_queries_def)

lemma api_queries_Nil [simp]: "api_queries [] = 0"
  by (simp add: api_queries_def)

lemma api_queries_Cons [simp]:
  "api_queries (te # tr) = (if is_search (snd te) then 1 else 0) + api_queries tr"
  by (simp add: api_queries_def)

lemma fetch_tweets_queries [simp]:
  "api_queries (trace (snd (fetch_tweets_body env api query count loc w)))
     = api_queries (trace w) + 1"
  by (simp add: fetch_tweets_eq split: sum.splits exn.splits)

lemma fetch_tweets_fst_now:
  "now w = now w' \<Longrightarrow>
     fst (fetch_tweets_body env api query count loc w)
       = fst (fetch_tweets_body env api query count loc w')"
  by (simp add: fetch_tweets_eq split: sum.splits exn.splits)

lemma cached_fetch_hit:
  assumes "cache_get 300 (now w) (cache w) (query, count, loc) = Some v"
  shows "cached_fetch_tweets env api query count loc w = (Inr v, w)"
  using assms by (simp add: cached_fetch_tweets_def get_or_fetch_def)

lemma cached_fetch_miss:
  assumes "cache_get 300 (now w) (cache w) (query, count, loc) = None"
  shows "cached_fetch_tweets env api query count loc w =
     (fst (fetch_tweets_body env api query count loc w),
      (snd (fetch_tweets_body env api query count loc w))
        \<lparr>cache := (cache w)((query, count, loc) \<mapsto>
           (now w, projr (fst (fetch_tweets_body env api query count loc w))))\<rparr>)"
proof -
  obtain df w' where f: "fetch_tweets_body env api query count loc w = (Inr df, w')"
    using fetch_tweets_returns [where env = env and api = api and query = query
        and count = count and loc = loc and w = w]
    by blast
  have "now w' = now w" "cache w' = cache w"
    using fetch_tweets_now [where env = env and api = api and query = query
        and count = count and loc = loc and w = w]
      fetch_tweets_cache [where env = env and api = api and query = query
        and count = count and loc = loc and w = w] f
    by simp_all
  then show ?thesis
    using assms f by (simp add: cached_fetch_tweets_def get_or_fetch_def)
qed

lemma cached_fetch_returns:
  "\<exists>df. fst (cached_fetch_tweets env api query count loc w) = Inr df"
proof (cases "cache_get 300 (now w) (cache w) (query, count, loc)")
  case None
  then show ?thesis
    using fetch_tweets_returns [where env = env and api = api and query = query
        and count = count and loc = loc and w = w]
    by (auto simp add: cached_fetch_miss)
next
  case (Some v)
  then show ?thesis by (simp add: cached_fetch_hit)
qed

lemma cached_fetch_now [simp]:
  "now (snd (cached_fetch_tweets env api query count loc w)) = now w"
  by (cases "cache_get 300 (now w) (cache w) (query, count, loc)")
    (simp_all add: cached_fetch_miss cached_fetch_hit)


lemma cache_get_other:
  "k' \<noteq> k \<Longrightarrow> cache_get ttl t (c(k \<mapsto> e)) k' = cache_get ttl t c k'"
  by (simp add: cache_get_def)

lemma cache_get_empty [simp]: "cache_get ttl t Map.empty k = None"
  by (simp add: cache_get_def)

lemma cached_fetch_queries_miss:
  assumes "cache_get 300 (now w) (cache w) (query, count, loc) = None"
  shows "api_queries (trace (snd (cached_fetch_tweets env api query count loc w)))
     = api_queries (trace w) + 1"
  by (simp add: cached_fetch_miss [OF assms])




text \<open>
  C6. Two calls whose geo-filters differ (two different filters, or one present and one
  absent) and whose client, query and count are the same use different entries: the call
  for the first filter leaves the entry of the second untouched; the call for the second
  filter, whenever it is made after the call for the first, returns what it would have
  returned without that call; and if the second filter had no live entry, that call
  sends its own search query to the API and returns its result.
\<close>

theorem distinct_geo_distinct_entries:
  assumes "loc1 \<noteq> loc2"
  shows "cache (snd (cached_fetch_tweets env api query count loc1 w)) (query, count, loc2)
       = cache w (query, count, loc2)
     \<and> fst (cached_fetch_tweets env api query count loc2
            ((snd (cached_fetch_tweets env api query count loc1 w))\<lparr>now := t\<rparr>))
       = fst (cached_fetch_tweets env api query count loc2 (w\<lparr>now := t\<rparr>))
     \<and> (cache_get 300 t (cache w) (query, count, loc2) = None \<longrightarrow>
          fst (cached_fetch_tweets env api query count loc2
            ((snd (cached_fetch_tweets env api query count loc1 w))\<lparr>now := t\<rparr>))
          = fst (fetch_tweets_body env api query count loc2 (w\<lparr>now := t\<rparr>))
          \<and> api_queries (trace (snd (cached_fetch_tweets env api query count loc2
               ((snd (cached_fetch_tweets env api query count loc1 w))\<lparr>now := t\<rparr>))))
            = api_queries (trace (snd (cached_fetch_tweets env api query count loc1 w))) + 1)"
proof -
  let ?k1 = "(query, count, loc1)" and ?k2 = "(query, count, loc2)"
  let ?w1 = "snd (cached_fetch_tweets env api query count loc1 w)"
  have ne: "?k2 \<noteq> ?k1" using assms by simp
  have c: "cache ?w1 ?k2 = cache w ?k2"
  proof (cases "cache_get 300 (now w) (cache w) ?k1")
    case None
    then show ?thesis using ne by (simp add: cached_fetch_miss)
  next
    case (Some v)
    then show ?thesis by (simp add: cached_fetch_hit)
  qed
  then have g: "cache_get 300 t (cache (?w1\<lparr>now := t\<rparr>)) ?k2 = cache_get 300 t (cache w) ?k2"
    by (simp add: cache_get_def)
  have f: "fst (fetch_tweets_body env api query count loc2 (?w1\<lparr>now := t\<rparr>))
      = fst (fetch_tweets_body env api query count loc2 (w\<lparr>now := t\<rparr>))"
    by (rule fetch_tweets_fst_now) simp
  have r: "fst (cached_fetch_tweets env api query count loc2 (?w1\<lparr>now := t\<rparr>))
      = fst (cached_fetch_tweets env api query count loc2 (w\<lparr>now := t\<rparr>))"
  proof (cases "cache_get 300 t (cache w) ?k2")
    case None
    then have "cache_get 300 (now (?w1\<lparr>now := t\<rparr>)) (cache (?w1\<lparr>now := t\<rparr>)) ?k2 = None"
      and "cache_get 300 (now (w\<lparr>now := t\<rparr>)) (cache (w\<lparr>now := t\<rparr>)) ?k2 = None"
      using g by simp_all
    then show ?thesis using f by (simp add: cached_fetch_miss)
  next
    case (Some v)
    then have "cache_get 300 (now (?w1\<lparr>now := t\<rparr>)) (cache (?w1\<lparr>now := t\<rparr>)) ?k2 = Some v"
      and "cache_get 300 (now (w\<lparr>now := t\<rparr>)) (cache (w\<lparr>now := t\<rparr>)) ?k2 = Some v"
      using g by simp_all
    then show ?thesis by (simp add: cached_fetch_hit)
  qed
  have m: "fst (cached_fetch_tweets env api query count loc2 (?w1\<lparr>now := t\<rparr>))
          = fst (fetch_tweets_body env api query count loc2 (w\<lparr>now := t\<rparr>))
        \<and> api_queries (trace (snd (cached_fetch_tweets env api query count loc2 (?w1\<lparr>now := t\<rparr>))))
          = api_queries (trace ?w1) + 1"
    if "cache_get 300 t (cache w) ?k2 = None"
  proof -
    have n: "cache_get 300 (now (?w1\<lparr>now := t\<rparr>)) (cache (?w1\<lparr>now := t\<rparr>)) ?k2 = None"
      using that g by simp
    show ?thesis
      using f cached_fetch_queries_miss [OF n, where env = env and api = api]
      by (simp add: cached_fetch_miss [OF n])
  qed
  from c r m show ?thesis by blast
qed

theorem distinct_geo_distinct_entries_witness:
  "Some test_geo \<noteq> None
   \<and> cache (snd (cached_fetch_tweets test_env 1 ''#test'' 10 (Some test_geo) init_world))
       (''#test'', 10, None) = None
   \<and> cache_get 300 1 (cache init_world) (''#test'', 10, None) = None
   \<and> api_queries (trace (snd (cached_fetch_tweets test_env 1 ''#test'' 10 None
        ((snd (cached_fetch_tweets test_env 1 ''#test'' 10 (Some test_geo) init_world))\<lparr>now := 1\<rparr>))))
      = 2"
proof -
  have ne: "Some test_geo \<noteq> None" by simp
  have m: "cache_get 300 (now init_world) (cache init_world) (''#test'', 10, Some test_geo) = None"
    by (simp add: init_world_def)
  have q: "api_queries (trace (snd (cached_fetch_tweets test_env 1 ''#test'' 10 (Some test_geo) init_world))) = 1"
    using cached_fetch_queries_miss [OF m, where env = test_env and api = 1]
    by (simp add: init_world_def)
  show ?thesis
    using q distinct_geo_distinct_entries [OF ne, where env = test_env and api = 1
        and query = "''#test''" and count = 10 and w = init_world and t = 1]
    by (simp add: init_world_def)
qed

section \<open>The refresh cycle\<close>

lemma now_sidebar [simp]: "now (sidebar cfg w) = now w"
  by (simp add: sidebar_def cache_clear_def)

lemma trace_sidebar [simp]: "trace (sidebar cfg w) = trace w"
  by (simp add: sidebar_def cache_clear_def)

lemma authenticate_twitter_eq:
  "authenticate_twitter env k s t ts w =
     (case tweepy_API env k s t ts of
        Inr api \<Rightarrow> (Inr (Some api), emit OAuthHandler w)
      | Inl e \<Rightarrow> (case e of Exception msg \<Rightarrow>
          (Inr None, emit (StError (''Authentication failed: '' @ msg)) (emit OAuthHandler w))))"
  by (simp add: authenticate_twitter_def try_except_def split: sum.splits exn.splits)

lemma admin_section_now [simp]: "now (admin_section df w) = now w"
  by (simp add: admin_section_def Let_def)

lemma admin_section_cache [simp]: "cache (admin_section df w) = cache w"
  by (simp add: admin_section_def Let_def)

lemma cycle_header_simps [simp]:
  "now (cycle_header cfg loc w) = now w"
  "cache (cycle_header cfg loc w) = cache w"
  by (simp_all add: cycle_header_def Let_def split: option.splits)

lemma time_sleep_simps [simp]:
  "now (time_sleep n w) = now w + n"
  "cache (time_sleep n w) = cache w"
  "trace (time_sleep n w) = trace w @ [(now w, TimeSleep n)]"
  by (simp_all add: time_sleep_def emit_def)

lemma events_emit [simp]: "events (emit ev w) = events w @ [ev]"
  by (simp add: events_def)

lemma events_time_sleep [simp]: "events (time_sleep n w) = events w @ [TimeSleep n]"
  by (simp add: events_def)

lemma events_sidebar [simp]: "events (sidebar cfg w) = events w"
  by (simp add: events_def)

lemma events_cache_update [simp]: "events (w\<lparr>cache := c\<rparr>) = events w"
  by (simp add: events_def)

lemma events_cycle_header:
  "events (cycle_header cfg loc w) =
     events w @ [StSubheader (analysis_heading (search_query cfg))]
       @ (case loc of Some l \<Rightarrow> [StCaption l] | None \<Rightarrow> [])"
  by (simp add: cycle_header_def Let_def split: option.splits)

lemma events_admin_section:
  "events (admin_section df w) =
     events w @ [StExpander ''Admin Monitoring'', StSubheader ''System Status'',
                 StWriteLastUpdated (now w)]
       @ (if df \<noteq> [] then [StDownloadButton] else [])"
  by (simp add: admin_section_def Let_def)

text \<open>
  A pass of the loop whose client cannot be hashed ends at line 118, after the heading
  and the caption, in the exception of the wrapper.
\<close>

lemma refresh_cycle_unhashable:
  assumes "\<not> st_hashable env api"
  shows "refresh_cycle env cfg api loc w = (Inl unhashable_param, cycle_header cfg loc w)"
proof -
  have "refresh_cycle env cfg api loc w =
      (case fetch_tweets env api (search_query cfg) (tweet_count cfg) loc (cycle_header cfg loc w) of
         (Inl e, w3) \<Rightarrow> (Inl e, w3)
       | (Inr tweets_df, w3) \<Rightarrow>
           (case render_batch env tweets_df w3 of
              (Inl e, w4) \<Rightarrow> (Inl e, w4)
            | (Inr _, w4) \<Rightarrow>
                (Inr Rerun, emit StRerun (time_sleep (refresh_rate cfg)
                   (emit (StWriteRefreshing (refresh_rate cfg)) (admin_section tweets_df w4))))))"
    unfolding refresh_cycle_def cycle_header_def Let_def by (rule refl)
  then show ?thesis
    by (simp add: fetch_tweets_unhashable [OF assms])
qed

text \<open>
  A pass of the loop whose client hashes goes through the cache, the rendering, the
  admin section and the sleep, and ends in the rerun request.
\<close>

lemma refresh_cycle_hashable:
  assumes "st_hashable env api"
  shows "refresh_cycle env cfg api loc w =
     (Inr Rerun,
      emit StRerun (time_sleep (refresh_rate cfg) (emit (StWriteRefreshing (refresh_rate cfg))
        (admin_section
           (projr (fst (cached_fetch_tweets env api (search_query cfg) (tweet_count cfg) loc
              (cycle_header cfg loc w))))
           (snd (render_batch env
              (projr (fst (cached_fetch_tweets env api (search_query cfg) (tweet_count cfg) loc
                 (cycle_header cfg loc w))))
              (snd (cached_fetch_tweets env api (search_query cfg) (tweet_count cfg) loc
                 (cycle_header cfg loc w)))))))))"
proof -
  let ?f = "cached_fetch_tweets env api (search_query cfg) (tweet_count cfg) loc (cycle_header cfg loc w)"
  obtain df where df: "fst ?f = Inr df"
    using cached_fetch_returns [where env = env and api = api and query = "search_query cfg"
        and count = "tweet_count cfg" and loc = loc and w = "cycle_header cfg loc w"]
    by blast
  then have f: "?f = (Inr df, snd ?f)"
    by (metis prod.collapse)
  have r: "render_batch env df (snd ?f) = (Inr (), snd (render_batch env df (snd ?f)))"
    by (metis prod.collapse render_batch_ok(1))
  have "refresh_cycle env cfg api loc w =
      (case fetch_tweets env api (search_query cfg) (tweet_count cfg) loc (cycle_header cfg loc w) of
         (Inl e, w3) \<Rightarrow> (Inl e, w3)
       | (Inr tweets_df, w3) \<Rightarrow>
           (case render_batch env tweets_df w3 of
              (Inl e, w4) \<Rightarrow> (Inl e, w4)
            | (Inr _, w4) \<Rightarrow>
                (Inr Rerun, emit StRerun (time_sleep (refresh_rate cfg)
                   (emit (StWriteRefreshing (refresh_rate cfg)) (admin_section tweets_df w4))))))"
    unfolding refresh_cycle_def cycle_header_def Let_def by (rule refl)
  also have "\<dots> = (Inr Rerun, emit StRerun (time_sleep (refresh_rate cfg)
      (emit (StWriteRefreshing (refresh_rate cfg))
         (admin_section df (snd (render_batch env df (snd ?f)))))))"
    unfolding fetch_tweets_hashable [OF assms] by (subst f, simp, subst r, simp)
  finally show ?thesis by (simp add: df)
qed

lemma dashboard_no_credentials:
  assumes "\<not> credentials_present cfg"
  shows "dashboard env cfg w =
     (Inr Finished,
      emit (StInfo ''Please enter your Twitter API credentials in the sidebar to begin.'')
        (sidebar cfg w))"
  using assms by (simp add: dashboard_def Let_def)

lemma dashboard_auth_failed:
  assumes "credentials_present cfg"
    and "tweepy_API env (api_key cfg) (api_secret cfg) (access_token cfg) (access_secret cfg)
      = Inl (Exception msg)"
  shows "dashboard env cfg w =
     (Inr Finished,
      emit (StWarning ''Please enter valid Twitter API credentials to proceed.'')
        (emit (StError (''Authentication failed: '' @ msg)) (emit OAuthHandler (sidebar cfg w))))"
  using assms by (simp add: dashboard_def Let_def authenticate_twitter_eq)

lemma dashboard_loop:
  assumes "credentials_present cfg"
    and "tweepy_API env (api_key cfg) (api_secret cfg) (access_token cfg) (access_secret cfg)
      = Inr api"
  shows "dashboard env cfg w =
     refresh_cycle env cfg api (location_of cfg) (emit OAuthHandler (sidebar cfg w))"
  using assms by (simp add: dashboard_def Let_def authenticate_twitter_eq)

text \<open>
  What the loop does with a failing fetch when the client hashes: the error is shown, the
  cycle sees the empty batch (which is also what the cache stores) and shows the warning
  for it, then the admin section and the countdown; it sleeps \<open>refresh_rate\<close> seconds and
  asks for a rerun.
\<close>

lemma fetch_error_cycle_hashable:
  assumes creds: "credentials_present cfg"
    and auth: "tweepy_API env (api_key cfg) (api_secret cfg) (access_token cfg) (access_secret cfg)
      = Inr api"
    and hashes: "st_hashable env api"
    and miss: "cache_get 300 (now w) (cache (sidebar cfg w))
      (search_query cfg, tweet_count cfg, location_of cfg) = None"
    and fails: "raises_in (polarity_compound env)
      (cursor_steps env api (search_query cfg) (tweet_count cfg) (location_of cfg) (now w))"
  shows "fst (dashboard env cfg w) = Inr Rerun
     \<and> now (snd (dashboard env cfg w)) = now w + refresh_rate cfg
     \<and> cache (snd (dashboard env cfg w))
         (search_query cfg, tweet_count cfg, location_of cfg) = Some (now w, [])
     \<and> (\<exists>msg. events (snd (dashboard env cfg w)) =
          events w @ [OAuthHandler, StSubheader (analysis_heading (search_query cfg))]
            @ (case location_of cfg of Some l \<Rightarrow> [StCaption l] | None \<Rightarrow> [])
            @ [SearchTweets (search_query cfg) (geocode_opt env (location_of cfg)) (tweet_count cfg),
               StError (''Error fetching tweets: '' @ msg),
               StWarning ''No tweets found matching your criteria.'',
               StExpander ''Admin Monitoring'', StSubheader ''System Status'',
               StWriteLastUpdated (now w),
               StWriteRefreshing (refresh_rate cfg), TimeSleep (refresh_rate cfg), StRerun])"
proof -
  let ?loc = "location_of cfg"
  let ?q = "search_query cfg" and ?n = "tweet_count cfg"
  let ?w2 = "cycle_header cfg ?loc (emit OAuthHandler (sidebar cfg w))"
  let ?f = "cached_fetch_tweets env api ?q ?n ?loc ?w2"
  have d: "dashboard env cfg w = refresh_cycle env cfg api ?loc (emit OAuthHandler (sidebar cfg w))"
    by (rule dashboard_loop [OF creds auth])
  have "isl (collect_rows (polarity_compound env) (cursor_steps env api ?q ?n ?loc (now w)) [])"
    using fails by (simp add: collect_rows_raises)
  then obtain msg where
    c: "collect_rows (polarity_compound env) (cursor_steps env api ?q ?n ?loc (now w)) []
      = Inl (Exception msg)"
    by (metis exn.exhaust isl_def)
  have ft: "fetch_tweets_body env api ?q ?n ?loc ?w2 =
      (Inr [], emit (StError (''Error fetching tweets: '' @ msg))
                 (emit (SearchTweets ?q (geocode_opt env ?loc) ?n) ?w2))"
    by (simp add: fetch_tweets_eq c)
  have m: "cache_get 300 (now ?w2) (cache ?w2) (?q, ?n, ?loc) = None"
    using miss by simp
  have f: "?f = (Inr [], (emit (StError (''Error fetching tweets: '' @ msg))
                 (emit (SearchTweets ?q (geocode_opt env ?loc) ?n) ?w2))
                 \<lparr>cache := (cache (sidebar cfg w))((?q, ?n, ?loc) \<mapsto> (now w, []))\<rparr>)"
    by (simp add: cached_fetch_miss [OF m] ft)
  have r: "render_batch env [] w' =
      (Inr (), emit (StWarning ''No tweets found matching your criteria.'') w')" for w'
    by (simp add: render_batch_def)
  have a: "fst (dashboard env cfg w) = Inr Rerun"
    by (simp add: d refresh_cycle_hashable [OF hashes])
  have b: "now (snd (dashboard env cfg w)) = now w + refresh_rate cfg"
    by (simp add: d refresh_cycle_hashable [OF hashes])
  have k: "cache (snd (dashboard env cfg w)) (?q, ?n, ?loc) = Some (now w, [])"
    by (simp add: d refresh_cycle_hashable [OF hashes] f r)
  have e: "events (snd (dashboard env cfg w)) =
          events w @ [OAuthHandler, StSubheader (analysis_heading ?q)]
            @ (case ?loc of Some l \<Rightarrow> [StCaption l] | None \<Rightarrow> [])
            @ [SearchTweets ?q (geocode_opt env ?loc) ?n,
               StError (''Error fetching tweets: '' @ msg),
               StWarning ''No tweets found matching your criteria.'',
               StExpander ''Admin Monitoring'', StSubheader ''System Status'',
               StWriteLastUpdated (now w),
               StWriteRefreshing (refresh_rate cfg), TimeSleep (refresh_rate cfg), StRerun]"
    by (simp add: d refresh_cycle_hashable [OF hashes] f r events_admin_section
        events_cycle_header)
  from a b k e show ?thesis by blast
qed

lemma test_cfg_values:
  "credentials_present test_cfg"
  "api_key test_cfg = ''k''" "api_secret test_cfg = ''s''" "access_token test_cfg = ''t''"
  "access_secret test_cfg = ''u''"
  "search_query test_cfg = ''#test''" "tweet_count test_cfg = 10"
  "location_of test_cfg = None" "refresh_rate test_cfg = 300"
  "sidebar test_cfg w = w"
  by (simp_all add: test_cfg_def credentials_present_def location_of_def sidebar_def)


lemma dashboard_Rerun_iff:
  "(fst (dashboard env cfg w) = Inr Rerun) =
     (credentials_present cfg
      \<and> (\<exists>api. tweepy_API env (api_key cfg) (api_secret cfg) (access_token cfg)
            (access_secret cfg) = Inr api \<and> st_hashable env api))"
proof (cases "credentials_present cfg")
  case False
  then show ?thesis by (simp add: dashboard_no_credentials)
next
  case True
  show ?thesis
  proof (cases "tweepy_API env (api_key cfg) (api_secret cfg) (access_token cfg) (access_secret cfg)")
    case (Inl e)
    obtain msg where "e = Exception msg" by (cases e)
    with True Inl show ?thesis by (simp add: dashboard_auth_failed)
  next
    case (Inr api)
    show ?thesis
    proof (cases "st_hashable env api")
      case h: True
      with True Inr show ?thesis
        by (simp add: dashboard_loop refresh_cycle_hashable)
    next
      case h: False
      with True Inr show ?thesis
        by (simp add: dashboard_loop refresh_cycle_unhashable)
    qed
  qed
qed

text \<open>
  C10. If one of the four credential strings is empty, the run only shows the request to
  enter credentials: no client is built, nothing is fetched, nothing sleeps. With four
  non-empty strings the client is built; if that raises, the error and a warning are
  shown and the run ends; if it returns a client, the run is one pass of the loop. The
  run ends in a rerun request, that is the pass of the loop reached its last line,
  exactly when all four strings are non-empty and building the client returned one that
  the cached call can hash.
\<close>

theorem loop_needs_credentials:
  "(api_key cfg = [] \<or> api_secret cfg = [] \<or> access_token cfg = [] \<or> access_secret cfg = []
      \<longrightarrow> dashboard env cfg w =
            (Inr Finished,
             emit (StInfo ''Please enter your Twitter API credentials in the sidebar to begin.'')
               (sidebar cfg w))
          \<and> events (snd (dashboard env cfg w)) =
              events w @ [StInfo ''Please enter your Twitter API credentials in the sidebar to begin.''])
   \<and> (api_key cfg \<noteq> [] \<and> api_secret cfg \<noteq> [] \<and> access_token cfg \<noteq> [] \<and> access_secret cfg \<noteq> []
       \<and> tweepy_API env (api_key cfg) (api_secret cfg) (access_token cfg) (access_secret cfg)
           = Inl (Exception msg)
      \<longrightarrow> dashboard env cfg w =
            (Inr Finished,
             emit (StWarning ''Please enter valid Twitter API credentials to proceed.'')
               (emit (StError (''Authentication failed: '' @ msg))
                  (emit OAuthHandler (sidebar cfg w)))))
   \<and> (api_key cfg \<noteq> [] \<and> api_secret cfg \<noteq> [] \<and> access_token cfg \<noteq> [] \<and> access_secret cfg \<noteq> []
       \<and> tweepy_API env (api_key cfg) (api_secret cfg) (access_token cfg) (access_secret cfg)
           = Inr api
      \<longrightarrow> dashboard env cfg w =
            refresh_cycle env cfg api (location_of cfg) (emit OAuthHandler (sidebar cfg w)))
   \<and> (fst (dashboard env cfg w) = Inr Rerun) =
       (api_key cfg \<noteq> [] \<and> api_secret cfg \<noteq> [] \<and> access_token cfg \<noteq> [] \<and> access_secret cfg \<noteq> []
        \<and> (\<exists>api. tweepy_API env (api_key cfg) (api_secret cfg) (access_token cfg)
              (access_secret cfg) = Inr api \<and> st_hashable env api))"
proof -
  have c: "credentials_present cfg =
      (api_key cfg \<noteq> [] \<and> api_secret cfg \<noteq> [] \<and> access_token cfg \<noteq> [] \<and> access_secret cfg \<noteq> [])"
    by (simp add: credentials_present_def)
  have n: "\<not> credentials_present cfg \<Longrightarrow>
      dashboard env cfg w =
            (Inr Finished,
             emit (StInfo ''Please enter your Twitter API credentials in the sidebar to begin.'')
               (sidebar cfg w))
          \<and> events (snd (dashboard env cfg w)) =
              events w @ [StInfo ''Please enter your Twitter API credentials in the sidebar to begin.'']"
    by (simp add: dashboard_no_credentials)
  have f: "credentials_present cfg \<Longrightarrow>
      tweepy_API env (api_key cfg) (api_secret cfg) (access_token cfg) (access_secret cfg)
           = Inl (Exception msg) \<Longrightarrow>
      dashboard env cfg w =
            (Inr Finished,
             emit (StWarning ''Please enter valid Twitter API credentials to proceed.'')
               (emit (StError (''Authentication failed: '' @ msg))
                  (emit OAuthHandler (sidebar cfg w))))"
    by (rule dashboard_auth_failed)
  have l: "credentials_present cfg \<Longrightarrow>
      tweepy_API env (api_key cfg) (api_secret cfg) (access_token cfg) (access_secret cfg)
           = Inr api \<Longrightarrow>
      dashboard env cfg w =
            refresh_cycle env cfg api (location_of cfg) (emit OAuthHandler (sidebar cfg w))"
    by (rule dashboard_loop)
  from n f l dashboard_Rerun_iff [where env = env and cfg = cfg and w = w] show ?thesis
    unfolding c by blast
qed

theorem loop_needs_credentials_witness:
  "access_token (test_cfg\<lparr>access_token := []\<rparr>) = []
   \<and> events (snd (dashboard test_env (test_cfg\<lparr>access_token := []\<rparr>) init_world))
       = [StInfo ''Please enter your Twitter API credentials in the sidebar to begin.'']
   \<and> tweepy_API (test_env\<lparr>tweepy_API := (\<lambda>k s t ts. Inl (Exception ''bad key''))\<rparr>)
        (api_key test_cfg) (api_secret test_cfg) (access_token test_cfg) (access_secret test_cfg)
       = Inl (Exception ''bad key'')
   \<and> fst (dashboard (test_env\<lparr>tweepy_API := (\<lambda>k s t ts. Inl (Exception ''bad key''))\<rparr>)
        test_cfg init_world) = Inr Finished
   \<and> api_key test_cfg \<noteq> [] \<and> api_secret test_cfg \<noteq> [] \<and> access_token test_cfg \<noteq> []
   \<and> access_secret test_cfg \<noteq> []
   \<and> tweepy_API test_env (api_key test_cfg) (api_secret test_cfg) (access_token test_cfg)
        (access_secret test_cfg) = Inr 1
   \<and> dashboard test_env test_cfg init_world =
       refresh_cycle test_env test_cfg 1 None (emit OAuthHandler init_world)
   \<and> fst (dashboard test_env test_cfg init_world) \<noteq> Inr Rerun
   \<and> fst (dashboard hashable_env test_cfg init_world) = Inr Rerun"
proof -
  let ?bad = "test_env\<lparr>tweepy_API := (\<lambda>k s t ts. Inl (Exception ''bad key''))\<rparr>"
  have e: "events init_world = []"
    by (simp add: events_def init_world_def)
  have c1: "events (snd (dashboard test_env (test_cfg\<lparr>access_token := []\<rparr>) init_world))
      = [StInfo ''Please enter your Twitter API credentials in the sidebar to begin.'']"
    using loop_needs_credentials [where cfg = "test_cfg\<lparr>access_token := []\<rparr>"
        and env = test_env and w = init_world and msg = "''x''" and api = 0]
    by (simp add: e)
  have b: "tweepy_API ?bad (api_key test_cfg) (api_secret test_cfg) (access_token test_cfg)
      (access_secret test_cfg) = Inl (Exception ''bad key'')"
    by simp
  have c2: "fst (dashboard ?bad test_cfg init_world) = Inr Finished"
    using b loop_needs_credentials [where cfg = test_cfg and env = ?bad
        and w = init_world and msg = "''bad key''" and api = 0]
    by (simp add: test_cfg_values)
  have a: "tweepy_API test_env (api_key test_cfg) (api_secret test_cfg) (access_token test_cfg)
      (access_secret test_cfg) = Inr 1"
    by (simp add: test_env_def test_cfg_values)
  have c3: "dashboard test_env test_cfg init_world =
       refresh_cycle test_env test_cfg 1 None (emit OAuthHandler init_world)"
    using a loop_needs_credentials [where cfg = test_cfg and env = test_env
        and w = init_world and msg = "''x''" and api = 1]
    by (simp add: test_cfg_values)
  have nh: "\<not> st_hashable test_env api" for api
    by (simp add: test_env_def)
  have c4: "fst (dashboard test_env test_cfg init_world) \<noteq> Inr Rerun"
    using nh loop_needs_credentials [where cfg = test_cfg and env = test_env
        and w = init_world and msg = "''x''" and api = 1]
    by blast
  have ne: "api_key test_cfg \<noteq> [] \<and> api_secret test_cfg \<noteq> [] \<and> access_token test_cfg \<noteq> []
      \<and> access_secret test_cfg \<noteq> []"
    by (simp add: test_cfg_values)
  have h: "tweepy_API hashable_env (api_key test_cfg) (api_secret test_cfg)
      (access_token test_cfg) (access_secret test_cfg) = Inr 1 \<and> st_hashable hashable_env 1"
    by (simp add: hashable_env_def test_env_def test_cfg_values)
  have c5: "fst (dashboard hashable_env test_cfg init_world) = Inr Rerun"
    using ne h loop_needs_credentials [where cfg = test_cfg and env = hashable_env
        and w = init_world and msg = "''x''" and api = 1]
    by blast
  from b c1 c2 a c3 c4 c5 show ?thesis
    by (simp add: test_cfg_values)
qed

end
